theory Spec2Isabelle
  imports Main
begin

section \<open>JavaScript values used by the time server\<close>

text \<open>
  Strings are lists of code units; a \<^typ>\<open>char\<close> stands for one code unit in the
  range 0..255.  Numbers that the server renders are integral (minute offsets, epoch
  milliseconds, day and week counts) or \<open>NaN\<close>; an integral number is an \<^typ>\<open>int\<close>
  and \<open>NaN\<close> is \<open>None\<close>.  All of them lie far inside the range in which a
  JavaScript number is an exact integer and is printed in plain decimal notation.
\<close>

definition digit_char :: "int \<Rightarrow> char" where
  "digit_char d = char_of (48 + d)"

text \<open>The decimal digits of a non-negative integer.\<close>

function decimal :: "int \<Rightarrow> string" where
  "decimal n = (if n < 10 then [digit_char n] else decimal (n div 10) @ [digit_char (n mod 10)])"
  by pat_completeness auto
termination
  by (relation "measure nat") auto

declare decimal.simps [simp del]

text \<open>\<open>String(n)\<close> for an integral number: decimal digits, a leading minus sign when negative.\<close>

definition show_int :: "int \<Rightarrow> string" where
  "show_int i = (if i < 0 then ''-'' @ decimal (- i) else decimal i)"

text \<open>\<open>String(x)\<close> for a number that may be \<open>NaN\<close>.\<close>

definition show_number :: "int option \<Rightarrow> string" where
  "show_number x = (case x of None \<Rightarrow> ''NaN'' | Some i \<Rightarrow> show_int i)"

text \<open>Reading decimal digits back, to state that \<^const>\<open>decimal\<close> is positional notation.\<close>

definition digit_value :: "char \<Rightarrow> int" where
  "digit_value c = of_char c - 48"

definition digits_value :: "string \<Rightarrow> int" where
  "digits_value s = foldl (\<lambda>acc c. 10 * acc + digit_value c) 0 s"

section \<open>formatTimeDifference\<close>

text \<open>
  \<^verbatim>\<open>
  function formatTimeDifference(minutes: number): string {
    const absMinutes = Math.abs(minutes);
    const hours = Math.floor(absMinutes / 60);
    const mins = absMinutes % 60;
    const sign = minutes < 0 ? '-' : '+';
    if (mins === 0) {
      return `${sign}${hours} hour${hours !== 1 ? 's' : ''}`;
    }
    return `${sign}${hours} hour${hours !== 1 ? 's' : ''} ${mins} minute${mins !== 1 ? 's' : ''}`;
  }
  \<close>
\<close>

definition formatTimeDifference :: "int \<Rightarrow> string" where
  "formatTimeDifference minutes =
     (let absMinutes = \<bar>minutes\<bar>;
          hours = absMinutes div 60;
          mins = absMinutes mod 60;
          sign = (if minutes < 0 then ''-'' else ''+'')
      in if mins = 0
         then sign @ show_int hours @ '' hour'' @ (if hours \<noteq> 1 then ''s'' else '''')
         else sign @ show_int hours @ '' hour'' @ (if hours \<noteq> 1 then ''s'' else '''')
                @ '' '' @ show_int mins @ '' minute'' @ (if mins \<noteq> 1 then ''s'' else ''''))"

text \<open>
  The rendering as the specification words it: a count followed by its unit, the unit in
  the singular exactly when the count is 1.
\<close>

definition counted :: "int \<Rightarrow> string \<Rightarrow> string" where
  "counted n unit = show_int n @ '' '' @ unit @ (if n = 1 then '''' else ''s'')"

definition render_difference :: "int \<Rightarrow> string" where
  "render_difference m =
     (if m < 0 then ''-'' else ''+'') @ counted (\<bar>m\<bar> div 60) ''hour''
       @ (if \<bar>m\<bar> mod 60 = 0 then '''' else '' '' @ counted (\<bar>m\<bar> mod 60) ''minute'')"

section \<open>Strings, truthiness and untyped arguments\<close>

text \<open>
  \<open>String.prototype.trim\<close> removes white space and line terminators from both ends; of
  the code units below 256 these are tab, line feed, vertical tab, form feed, carriage
  return, space and no-break space.
\<close>

definition is_space :: "char \<Rightarrow> bool" where
  "is_space c = (of_char c \<in> set [9, 10, 11, 12, 13, 32, 160 :: nat])"

definition trim :: "string \<Rightarrow> string" where
  "trim s = rev (dropWhile is_space (rev (dropWhile is_space s)))"

text \<open>A value of type \<open>string | undefined\<close> in a condition: only a non-empty string is truthy.\<close>

definition truthy :: "string option \<Rightarrow> bool" where
  "truthy x = (case x of None \<Rightarrow> False | Some s \<Rightarrow> s \<noteq> [])"

text \<open>A value of type \<open>string | undefined\<close> interpolated into a template literal.\<close>

definition template :: "string option \<Rightarrow> string" where
  "template x = (case x of None \<Rightarrow> ''undefined'' | Some s \<Rightarrow> s)"

text \<open>
  The argument object of a request is untyped (\<open>unknown\<close>).  The validators inspect
  only \<open>typeof\<close>, \<open>in\<close> and property reads, so the payload of a number is immaterial.
  An object is the list of its own properties; the first binding of a key counts.
\<close>

datatype jsval =
  JUndefined
  | JNull
  | JBool bool
  | JNum int
  | JStr string
  | JArr "jsval list"
  | JObj "(string \<times> jsval) list"

fun typeof :: "jsval \<Rightarrow> string" where
  "typeof JUndefined = ''undefined''"
| "typeof JNull = ''object''"
| "typeof (JBool b) = ''boolean''"
| "typeof (JNum n) = ''number''"
| "typeof (JStr s) = ''string''"
| "typeof (JArr xs) = ''object''"
| "typeof (JObj kvs) = ''object''"

text \<open>
  \<open>k in v\<close> and \<open>v.k\<close> for the six property names the server uses (\<open>format\<close>,
  \<open>timezone\<close>, \<open>time\<close>, \<open>date\<close>, \<open>sourceTimezone\<close>, \<open>targetTimezone\<close>), none of
  which an array or \<open>Object.prototype\<close> provides.  Both are only evaluated on a value
  that is neither \<open>undefined\<close> nor \<open>null\<close>; reading a property of those throws and is
  modelled by \<open>member\<close> below.
\<close>

fun has_prop :: "string \<Rightarrow> jsval \<Rightarrow> bool" where
  "has_prop k (JObj kvs) = (map_of kvs k \<noteq> None)"
| "has_prop k v = False"

fun get_prop :: "jsval \<Rightarrow> string \<Rightarrow> jsval" where
  "get_prop (JObj kvs) k = (case map_of kvs k of None \<Rightarrow> JUndefined | Some v \<Rightarrow> v)"
| "get_prop v k = JUndefined"

text \<open>Reading a validated field at its declared type \<open>string\<close> or \<open>string | undefined\<close>.\<close>

fun as_string :: "jsval \<Rightarrow> string" where
  "as_string (JStr s) = s"
| "as_string v = []"

fun as_opt_string :: "jsval \<Rightarrow> string option" where
  "as_opt_string (JStr s) = Some s"
| "as_opt_string v = None"

section \<open>Exceptions, library calls and computations\<close>

text \<open>
  A thrown value is an \<open>Error\<close> instance with its message, or something else, of which
  only \<open>String(value)\<close> is ever used.
\<close>

datatype js_exn = ErrorObj string | NonError string

text \<open>\<open>error instanceof Error ? error.message : String(error)\<close>\<close>

fun message_or_string :: "js_exn \<Rightarrow> string" where
  "message_or_string (ErrorObj m) = m"
| "message_or_string (NonError s) = s"

text \<open>\<open>error instanceof Error ? error.message : 'Unknown error'\<close>\<close>

fun message_or_unknown :: "js_exn \<Rightarrow> string" where
  "message_or_unknown (ErrorObj m) = m"
| "message_or_unknown (NonError s) = ''Unknown error''"

text \<open>
  The date library (dayjs with its utc, timezone, relativeTime, weekOfYear and isoWeek
  plugins) is not part of the repository; the server is modelled over any library.
  An instant is its epoch milliseconds.  A date object made by \<open>dayjs(s)\<close> or
  \<open>dayjs.utc(s)\<close> is \<open>Some\<close> instant, or \<open>None\<close> when invalid; \<open>dayjs()\<close> and
  \<open>dayjs.utc()\<close> read the system clock, whose \<open>k\<close>-th reading during one request is
  \<open>clock k\<close>.  \<open>fromNow\<close> reads the clock inside the library and is given that
  reading.  A date object in a zone, as \<open>.tz(zone)\<close> returns it, is the record of what
  the server reads from it.
\<close>

record zoned =
  isValid :: bool
  utcOffset :: int
  formatted :: "string \<Rightarrow> string"

record dayjs =
  clock :: "nat \<Rightarrow> int"
  dayjs_utc :: "string \<Rightarrow> int option"
  dayjs_local :: "string \<Rightarrow> int option"
  tz_guess :: string
  tz :: "int \<Rightarrow> string \<Rightarrow> js_exn + zoned"
  format_utc :: "int \<Rightarrow> string \<Rightarrow> string"
  fromNow :: "int option \<Rightarrow> int \<Rightarrow> string"
  daysInMonth :: "int option \<Rightarrow> int option"
  week :: "int option \<Rightarrow> int option"
  isoWeek :: "int option \<Rightarrow> int option"

text \<open>
  The calls into the library, in the order they are made.  \<open>isValid\<close> and \<open>valueOf\<close>
  only read a field of the object and are not recorded.
\<close>

datatype lib_call =
  ClockRead nat
  | ParseUtc string
  | ParseLocal string
  | TzGuess
  | TzConvert int string
  | UtcOffset
  | Format string
  | FromNow
  | DaysInMonth
  | Week
  | IsoWeek

text \<open>
  A computation yields the library calls it made and either the exception it threw or
  the value it returned.
\<close>

type_synonym 'a comp = "lib_call list \<times> (js_exn + 'a)"

definition returns :: "'a \<Rightarrow> 'a comp" where
  "returns x = ([], Inr x)"

definition throws :: "js_exn \<Rightarrow> 'a comp" where
  "throws e = ([], Inl e)"

definition call :: "lib_call \<Rightarrow> 'a \<Rightarrow> 'a comp" where
  "call c x = ([c], Inr x)"

definition call_throwing :: "lib_call \<Rightarrow> js_exn + 'a \<Rightarrow> 'a comp" where
  "call_throwing c r = ([c], r)"

definition seq :: "'a comp \<Rightarrow> ('a \<Rightarrow> 'b comp) \<Rightarrow> 'b comp" where
  "seq m f =
     (case m of
        (t, Inl e) \<Rightarrow> (t, Inl e)
      | (t, Inr x) \<Rightarrow> (case f x of (t', r) \<Rightarrow> (t @ t', r)))"

definition try_catch :: "'a comp \<Rightarrow> (js_exn \<Rightarrow> 'a comp) \<Rightarrow> 'a comp" where
  "try_catch m h =
     (case m of
        (t, Inl e) \<Rightarrow> (case h e of (t', r) \<Rightarrow> (t @ t', r))
      | (t, Inr x) \<Rightarrow> (t, Inr x))"

text \<open>
  \<open>v.k\<close> on a value that may be \<open>undefined\<close> or \<open>null\<close>: a \<open>TypeError\<close>, with the
  message of the V8 engine.
\<close>

definition member :: "jsval \<Rightarrow> string \<Rightarrow> jsval comp" where
  "member v k =
     (if v = JUndefined \<or> v = JNull
      then throws (ErrorObj (''Cannot read properties of ''
             @ (if v = JUndefined then ''undefined'' else ''null'')
             @ '' (reading '' @ [CHR 0x27] @ k @ [CHR 0x27] @ '')''))
      else returns (get_prop v k))"

section \<open>The calculation functions\<close>

record current_time =
  ct_utc :: string
  ct_local :: string
  ct_timezone :: string

text \<open>
  \<^verbatim>\<open>
  function getCurrentTime(format: string, timezone?: string) {
    const utcTime = dayjs.utc();
    const localTimezone = timezone ?? dayjs.tz.guess();
    const localTime = dayjs().tz(localTimezone);
    return { utc: utcTime.format(format), local: localTime.format(format),
             timezone: localTimezone };
  }
  \<close>
\<close>

definition getCurrentTime :: "dayjs \<Rightarrow> string \<Rightarrow> string option \<Rightarrow> current_time comp" where
  "getCurrentTime lib fmt timezone =
     seq (call (ClockRead 0) (clock lib 0)) (\<lambda>utcTime.
     seq (case timezone of Some z \<Rightarrow> returns z | None \<Rightarrow> call TzGuess (tz_guess lib))
       (\<lambda>localTimezone.
     seq (call (ClockRead 1) (clock lib 1)) (\<lambda>now.
     seq (call_throwing (TzConvert now localTimezone) (tz lib now localTimezone)) (\<lambda>localTime.
     seq (call (Format fmt) (format_utc lib utcTime fmt)) (\<lambda>u.
     seq (call (Format fmt) (formatted localTime fmt)) (\<lambda>l.
     returns \<lparr>ct_utc = u, ct_local = l, ct_timezone = localTimezone\<rparr>))))))"

text \<open>\<^verbatim>\<open>function getRelativeTime(time: string) { return dayjs(time).fromNow(); }\<close>\<close>

definition getRelativeTime :: "dayjs \<Rightarrow> string \<Rightarrow> string comp" where
  "getRelativeTime lib time =
     seq (call (ParseLocal time) (dayjs_local lib time)) (\<lambda>d.
     call FromNow (fromNow lib d (clock lib 0)))"

text \<open>
  \<^verbatim>\<open>
  function getTimestamp(time?: string) {
    return time ? dayjs.utc(time).valueOf() : dayjs().valueOf();
  }
  \<close>
  The result is a number: \<open>None\<close> is the \<open>NaN\<close> of an invalid date.
\<close>

definition getTimestamp :: "dayjs \<Rightarrow> string option \<Rightarrow> int option comp" where
  "getTimestamp lib time =
     (case (if truthy time then time else None) of
        Some s \<Rightarrow> call (ParseUtc s) (dayjs_utc lib s)
      | None \<Rightarrow> call (ClockRead 0) (Some (clock lib 0)))"

text \<open>
  \<^verbatim>\<open>
  function getDaysInMonth(date?: string) {
    return date ? dayjs(date).daysInMonth() : dayjs().daysInMonth();
  }
  \<close>
\<close>

definition getDaysInMonth :: "dayjs \<Rightarrow> string option \<Rightarrow> int option comp" where
  "getDaysInMonth lib date =
     seq (case (if truthy date then date else None) of
            Some s \<Rightarrow> call (ParseLocal s) (dayjs_local lib s)
          | None \<Rightarrow> call (ClockRead 0) (Some (clock lib 0))) (\<lambda>d.
     call DaysInMonth (daysInMonth lib d))"

record week_of_year =
  wy_week :: "int option"
  wy_isoWeek :: "int option"

text \<open>
  \<^verbatim>\<open>
  function getWeekOfYear(date?: string) {
    const week = date ? dayjs(date).week() : dayjs().week();
    const isoWeek = date ? dayjs(date).isoWeek() : dayjs().isoWeek();
    return { week, isoWeek };
  }
  \<close>
\<close>

definition getWeekOfYear :: "dayjs \<Rightarrow> string option \<Rightarrow> week_of_year comp" where
  "getWeekOfYear lib date =
     seq (case (if truthy date then date else None) of
            Some s \<Rightarrow> call (ParseLocal s) (dayjs_local lib s)
          | None \<Rightarrow> call (ClockRead 0) (Some (clock lib 0))) (\<lambda>d1.
     seq (call Week (week lib d1)) (\<lambda>w.
     seq (case (if truthy date then date else None) of
            Some s \<Rightarrow> call (ParseLocal s) (dayjs_local lib s)
          | None \<Rightarrow> call (ClockRead 1) (Some (clock lib 1))) (\<lambda>d2.
     seq (call IsoWeek (isoWeek lib d2)) (\<lambda>iw.
     returns \<lparr>wy_week = w, wy_isoWeek = iw\<rparr>))))"

record conversion =
  sourceTime :: string
  targetTime :: string
  timeDiff :: string

text \<open>
  \<^verbatim>\<open>
  function convertTime(sourceTimezone: string, targetTimezone: string, time?: string) {
    try {
      if (!sourceTimezone?.trim() || !targetTimezone?.trim()) {
        throw new Error('Source and target timezones are required and cannot be empty');
      }
      const hasValidTime = time && time.trim() !== '';
      const momentInTime = hasValidTime ? dayjs.utc(time) : dayjs.utc();
      if (!momentInTime.isValid()) {
        throw new Error(`Invalid time value provided: ${time}`);
      }
      const sourceTime = momentInTime.tz(sourceTimezone);
      const targetTime = momentInTime.tz(targetTimezone);
      if (!sourceTime.isValid() || !targetTime.isValid()) {
        throw new Error('Invalid timezone conversion');
      }
      const sourceOffsetMinutes = sourceTime.utcOffset();
      const targetOffsetMinutes = targetTime.utcOffset();
      const diffMinutes = targetOffsetMinutes - sourceOffsetMinutes;
      const formatString = 'YYYY-MM-DD HH:mm:ss';
      return {
        sourceTime: sourceTime.format(formatString),
        targetTime: targetTime.format(formatString),
        timeDiff: formatTimeDifference(diffMinutes),
      };
    } catch (error) {
      const message = error instanceof Error ? error.message : 'Unknown error';
      throw new Error(
        `Failed to convert time from ${sourceTimezone} to ${targetTimezone}: ${message}`);
    }
  }
  \<close>
\<close>

definition hasValidTime :: "string option \<Rightarrow> bool" where
  "hasValidTime time = (case time of None \<Rightarrow> False | Some s \<Rightarrow> s \<noteq> [] \<and> trim s \<noteq> [])"

definition formatString :: string where
  "formatString = ''YYYY-MM-DD HH:mm:ss''"

definition convertTime_body :: "dayjs \<Rightarrow> string \<Rightarrow> string \<Rightarrow> string option \<Rightarrow> conversion comp" where
  "convertTime_body lib sourceTimezone targetTimezone time =
     (if trim sourceTimezone = [] \<or> trim targetTimezone = []
      then throws (ErrorObj ''Source and target timezones are required and cannot be empty'')
      else
        seq (case (if hasValidTime time then time else None) of
               Some s \<Rightarrow> call (ParseUtc s) (dayjs_utc lib s)
             | None \<Rightarrow> call (ClockRead 0) (Some (clock lib 0))) (\<lambda>momentInTime.
        case momentInTime of
          None \<Rightarrow> throws (ErrorObj (''Invalid time value provided: '' @ template time))
        | Some t \<Rightarrow>
            seq (call_throwing (TzConvert t sourceTimezone) (tz lib t sourceTimezone)) (\<lambda>src.
            seq (call_throwing (TzConvert t targetTimezone) (tz lib t targetTimezone)) (\<lambda>tgt.
            if \<not> isValid src \<or> \<not> isValid tgt
            then throws (ErrorObj ''Invalid timezone conversion'')
            else
              seq (call UtcOffset (utcOffset src)) (\<lambda>sourceOffsetMinutes.
              seq (call UtcOffset (utcOffset tgt)) (\<lambda>targetOffsetMinutes.
              let diffMinutes = targetOffsetMinutes - sourceOffsetMinutes in
              seq (call (Format formatString) (formatted src formatString)) (\<lambda>st.
              seq (call (Format formatString) (formatted tgt formatString)) (\<lambda>tt.
              returns \<lparr>sourceTime = st, targetTime = tt,
                       timeDiff = formatTimeDifference diffMinutes\<rparr>))))))))"

definition convertTime :: "dayjs \<Rightarrow> string \<Rightarrow> string \<Rightarrow> string option \<Rightarrow> conversion comp" where
  "convertTime lib sourceTimezone targetTimezone time =
     try_catch (convertTime_body lib sourceTimezone targetTimezone time) (\<lambda>error.
       throws (ErrorObj (''Failed to convert time from '' @ sourceTimezone @ '' to ''
                 @ targetTimezone @ '': '' @ message_or_unknown error)))"

section \<open>The argument validators\<close>

text \<open>
  \<^verbatim>\<open>
  function checkCurrentTimeArgs(args: unknown): args is { format: string, timezone?: string } {
    return (typeof args === 'object' && args !== null &&
      'format' in args && typeof args.format === 'string' &&
      ('timezone' in args ? typeof args.timezone === 'string' : true));
  }
  function checkRelativeTimeArgs(args: unknown): args is { time: string } {
    return (typeof args === 'object' && args !== null &&
      'time' in args && typeof args.time === 'string');
  }
  function checkDaysInMonthArgs(args: unknown): args is { date: string } {
    return (typeof args === 'object' && args !== null &&
      'date' in args && typeof args.date === 'string');
  }
  function checkTimestampArgs(args: unknown): args is { time?: string } {
    if (args === undefined || args === null) { return true; }
    return (typeof args === 'object' &&
      (!('time' in args) || typeof args.time === 'string'));
  }
  function checkConvertTimeArgs(args: unknown): args is { ... } {
    if (typeof args !== 'object' || args === null) { return false; }
    const obj = args as Record<string, unknown>;
    if (!('sourceTimezone' in obj) || typeof obj.sourceTimezone !== 'string') { return false; }
    if (!('targetTimezone' in obj) || typeof obj.targetTimezone !== 'string') { return false; }
    if ('time' in obj && obj.time !== undefined && typeof obj.time !== 'string') { return false; }
    return true;
  }
  function checkWeekOfYearArgs(args: unknown): args is { date?: string } {
    return (typeof args === 'object' && args !== null &&
      ('date' in args ? typeof args.date === 'string' : true));
  }
  \<close>
\<close>

definition checkCurrentTimeArgs :: "jsval \<Rightarrow> bool" where
  "checkCurrentTimeArgs args =
     (typeof args = ''object'' \<and> args \<noteq> JNull \<and>
      has_prop ''format'' args \<and> typeof (get_prop args ''format'') = ''string'' \<and>
      (if has_prop ''timezone'' args then typeof (get_prop args ''timezone'') = ''string''
       else True))"

definition checkRelativeTimeArgs :: "jsval \<Rightarrow> bool" where
  "checkRelativeTimeArgs args =
     (typeof args = ''object'' \<and> args \<noteq> JNull \<and>
      has_prop ''time'' args \<and> typeof (get_prop args ''time'') = ''string'')"

definition checkDaysInMonthArgs :: "jsval \<Rightarrow> bool" where
  "checkDaysInMonthArgs args =
     (typeof args = ''object'' \<and> args \<noteq> JNull \<and>
      has_prop ''date'' args \<and> typeof (get_prop args ''date'') = ''string'')"

definition checkTimestampArgs :: "jsval \<Rightarrow> bool" where
  "checkTimestampArgs args =
     (if args = JUndefined \<or> args = JNull then True
      else typeof args = ''object'' \<and>
           (\<not> has_prop ''time'' args \<or> typeof (get_prop args ''time'') = ''string''))"

definition checkConvertTimeArgs :: "jsval \<Rightarrow> bool" where
  "checkConvertTimeArgs args =
     (if typeof args \<noteq> ''object'' \<or> args = JNull then False
      else if \<not> has_prop ''sourceTimezone'' args
              \<or> typeof (get_prop args ''sourceTimezone'') \<noteq> ''string'' then False
      else if \<not> has_prop ''targetTimezone'' args
              \<or> typeof (get_prop args ''targetTimezone'') \<noteq> ''string'' then False
      else if has_prop ''time'' args \<and> get_prop args ''time'' \<noteq> JUndefined
              \<and> typeof (get_prop args ''time'') \<noteq> ''string'' then False
      else True)"

definition checkWeekOfYearArgs :: "jsval \<Rightarrow> bool" where
  "checkWeekOfYearArgs args =
     (typeof args = ''object'' \<and> args \<noteq> JNull \<and>
      (if has_prop ''date'' args then typeof (get_prop args ''date'') = ''string'' else True))"

section \<open>The request handler\<close>

datatype content = TextContent string

record tool_result =
  success :: bool
  content :: "content list"

definition text_result :: "bool \<Rightarrow> string \<Rightarrow> tool_result" where
  "text_result ok msg = \<lparr>success = ok, content = [TextContent msg]\<rparr>"

definition invalid_arguments :: "string \<Rightarrow> 'a comp" where
  "invalid_arguments name = throws (ErrorObj (''Invalid arguments for tool: ['' @ name @ '']''))"

text \<open>
  The body of the \<open>try\<close> block of the \<open>CallToolRequestSchema\<close> handler: a \<open>switch\<close>
  on the tool name, each case validating \<open>args\<close>, reading the fields, calling the
  calculation and wrapping its result in a success envelope.
\<close>

definition tool_switch :: "dayjs \<Rightarrow> string \<Rightarrow> jsval \<Rightarrow> tool_result comp" where
  "tool_switch lib name args =
     (if name = ''current_time'' then
        if \<not> checkCurrentTimeArgs args then invalid_arguments name
        else
          let fmt = as_string (get_prop args ''format'');
              timezone = as_opt_string (get_prop args ''timezone'')
          in seq (getCurrentTime lib fmt timezone) (\<lambda>result.
             returns (text_result True
               (''Current UTC time is '' @ ct_utc result @ '', and the time in ''
                 @ ct_timezone result @ '' is '' @ ct_local result @ ''.'')))
      else if name = ''relative_time'' then
        if \<not> checkRelativeTimeArgs args then invalid_arguments name
        else
          let time = as_string (get_prop args ''time'')
          in seq (getRelativeTime lib time) (\<lambda>result.
             returns (text_result True result))
      else if name = ''days_in_month'' then
        if \<not> checkDaysInMonthArgs args then invalid_arguments name
        else
          let date = as_string (get_prop args ''date'')
          in seq (getDaysInMonth lib (Some date)) (\<lambda>result.
             returns (text_result True
               (''The number of days in month is '' @ show_number result @ ''.'')))
      else if name = ''get_timestamp'' then
        if \<not> checkTimestampArgs args then invalid_arguments name
        else
          seq (member args ''time'') (\<lambda>v.
          let time = as_opt_string v
          in seq (getTimestamp lib time) (\<lambda>result.
             returns (text_result True
               (if truthy time
                then ''The timestamp of '' @ template time @ '' (parsed as UTC) is ''
                       @ show_number result @ '' ms.''
                else ''The current timestamp is '' @ show_number result @ '' ms.''))))
      else if name = ''convert_time'' then
        if \<not> checkConvertTimeArgs args then invalid_arguments name
        else
          let sourceTimezone = as_string (get_prop args ''sourceTimezone'');
              targetTimezone = as_string (get_prop args ''targetTimezone'');
              time = as_opt_string (get_prop args ''time'')
          in seq (convertTime lib sourceTimezone targetTimezone time) (\<lambda>result.
             let timeContext =
                   (if hasValidTime time then ''At '' @ template time @ '', the''
                    else ''The current'')
             in returns (text_result True
                  (timeContext @ '' time in '' @ sourceTimezone @ '' is '' @ sourceTime result
                    @ '', and in '' @ targetTimezone @ '' is '' @ targetTime result
                    @ ''. Time difference: '' @ timeDiff result @ ''.'')))
      else if name = ''get_week_year'' then
        if \<not> checkWeekOfYearArgs args then invalid_arguments name
        else
          let date = as_opt_string (get_prop args ''date'')
          in seq (getWeekOfYear lib date) (\<lambda>result.
             returns (text_result True
               (''The week of the year is '' @ show_number (wy_week result)
                 @ '', and the isoWeek of the year is '' @ show_number (wy_isoWeek result)
                 @ ''.'')))
      else throws (ErrorObj (''Unknown tool: '' @ name)))"

text \<open>
  \<^verbatim>\<open>
  try { switch (name) { ... } }
  catch (error: unknown) {
    const message = error instanceof Error ? error.message : String(error);
    return { success: false, content: [{ type: 'text', text: message }] };
  }
  \<close>
\<close>

definition handler :: "dayjs \<Rightarrow> string \<Rightarrow> jsval \<Rightarrow> tool_result comp" where
  "handler lib name args =
     try_catch (tool_switch lib name args) (\<lambda>error.
       returns (text_result False (message_or_string error)))"

section \<open>A stand-in for the date library\<close>

text \<open>
  Modelled from the spec: the date library itself (dayjs and the zone database) is not
  part of the repository.  The specification says that an instant string is an ISO 8601
  string parsed as UTC, that an instant is a point on the UTC timeline counted in
  milliseconds since the epoch, that a zone has an offset in minutes (India UTC+5:30,
  Nepal UTC+5:45) and that local times are formatted as \<open>YYYY-MM-DD HH:mm:ss\<close>.
  \<open>days_from_civil\<close> and \<open>civil_from_days\<close> are the proleptic Gregorian calendar.
\<close>

definition days_from_civil :: "int \<Rightarrow> int \<Rightarrow> int \<Rightarrow> int" where
  "days_from_civil y m d =
     (let y' = (if m \<le> 2 then y - 1 else y);
          era = y' div 400;
          yoe = y' - era * 400;
          doy = (153 * (if m > 2 then m - 3 else m + 9) + 2) div 5 + d - 1;
          doe = yoe * 365 + yoe div 4 - yoe div 100 + doy
      in era * 146097 + doe - 719468)"

definition civil_from_days :: "int \<Rightarrow> int \<times> int \<times> int" where
  "civil_from_days z =
     (let z' = z + 719468;
          era = z' div 146097;
          doe = z' - era * 146097;
          yoe = (doe - doe div 1460 + doe div 36524 - doe div 146096) div 365;
          doy = doe - (365 * yoe + yoe div 4 - yoe div 100);
          mp = (5 * doy + 2) div 153;
          d = doy - (153 * mp + 2) div 5 + 1;
          m = (if mp < 10 then mp + 3 else mp - 9);
          y = yoe + era * 400
      in (if m \<le> 2 then y + 1 else y, m, d))"

definition is_digit :: "char \<Rightarrow> bool" where
  "is_digit c = (48 \<le> (of_char c :: nat) \<and> (of_char c :: nat) \<le> 57)"

definition number_of_digits :: "string \<Rightarrow> int option" where
  "number_of_digits s = (if s \<noteq> [] \<and> list_all is_digit s then Some (digits_value s) else None)"

text \<open>The shape \<open>YYYY-MM-DDTHH:mm:ss\<close>, read as a UTC date and time.\<close>

definition parse_iso_utc :: "string \<Rightarrow> int option" where
  "parse_iso_utc s =
     (if length s = 19 \<and> s ! 4 = CHR ''-'' \<and> s ! 7 = CHR ''-'' \<and> s ! 10 = CHR ''T''
         \<and> s ! 13 = CHR '':'' \<and> s ! 16 = CHR '':''
      then
        (case (number_of_digits (take 4 s), number_of_digits (take 2 (drop 5 s)),
               number_of_digits (take 2 (drop 8 s)), number_of_digits (take 2 (drop 11 s)),
               number_of_digits (take 2 (drop 14 s)), number_of_digits (take 2 (drop 17 s))) of
           (Some y, Some m, Some d, Some h, Some mi, Some sec) \<Rightarrow>
             if 1 \<le> m \<and> m \<le> 12 \<and> 1 \<le> d \<and> d \<le> 31 \<and> h < 24 \<and> mi < 60 \<and> sec < 60
             then Some ((((days_from_civil y m d * 24 + h) * 60 + mi) * 60 + sec) * 1000)
             else None
         | _ \<Rightarrow> None)
      else None)"

definition pad :: "nat \<Rightarrow> int \<Rightarrow> string" where
  "pad w n = replicate (w - length (show_int n)) CHR ''0'' @ show_int n"

text \<open>The local date and time of an instant at an offset, as \<open>YYYY-MM-DD HH:mm:ss\<close>.\<close>

definition format_local :: "int \<Rightarrow> int \<Rightarrow> string" where
  "format_local ms offset =
     (let secs = (ms + offset * 60000) div 1000;
          days = secs div 86400;
          sod = secs mod 86400
      in case civil_from_days days of
           (y, m, d) \<Rightarrow>
             pad 4 y @ ''-'' @ pad 2 m @ ''-'' @ pad 2 d @ '' ''
               @ pad 2 (sod div 3600) @ '':'' @ pad 2 (sod mod 3600 div 60) @ '':''
               @ pad 2 (sod mod 60))"

text \<open>Zones without daylight saving, so that the offset is the same at every instant.\<close>

definition zone_table :: "(string \<times> int) list" where
  "zone_table =
     [(''UTC'', 0), (''Asia/Kolkata'', 330), (''Asia/Kathmandu'', 345), (''Asia/Dhaka'', 360),
      (''Asia/Colombo'', 330), (''Asia/Tokyo'', 540), (''America/Bogota'', - 300)]"

definition zone_view :: "int \<Rightarrow> string \<Rightarrow> js_exn + zoned" where
  "zone_view t zone =
     (case map_of zone_table zone of
        None \<Rightarrow> Inl (ErrorObj (''Invalid time zone specified: '' @ zone))
      | Some off \<Rightarrow>
          Inr \<lparr>isValid = True, utcOffset = off, formatted = (\<lambda>pattern. format_local t off)\<rparr>)"

text \<open>
  The stand-in reads a clock that starts at \<open>start\<close> and advances one millisecond per
  reading, has UTC as the host zone, and formats by the one pattern the conversion uses.
  Its ISO week is the week of the Thursday; its standard week starts on Sunday and week 1
  contains 1 January.  Relative time is told apart only as past or future.
\<close>

definition iso_week :: "int option \<Rightarrow> int option" where
  "iso_week d =
     (case d of
        None \<Rightarrow> None
      | Some ms \<Rightarrow>
          (let z = ms div 86400000;
               thursday = z - (z + 3) mod 7 + 3
           in case civil_from_days thursday of
                (y, _, _) \<Rightarrow> Some ((thursday - days_from_civil y 1 1) div 7 + 1)))"

definition sunday_week :: "int option \<Rightarrow> int option" where
  "sunday_week d =
     (case d of
        None \<Rightarrow> None
      | Some ms \<Rightarrow>
          (let z = ms div 86400000;
               sunday = z - (z + 4) mod 7
           in case civil_from_days (sunday + 6) of
                (y, _, _) \<Rightarrow>
                  (let first = days_from_civil y 1 1
                   in Some ((z - (first - (first + 4) mod 7)) div 7 + 1))))"

definition month_length :: "int option \<Rightarrow> int option" where
  "month_length d =
     (case d of
        None \<Rightarrow> None
      | Some ms \<Rightarrow>
          (case civil_from_days (ms div 86400000) of
             (y, m, _) \<Rightarrow>
               Some (days_from_civil (if m = 12 then y + 1 else y) (if m = 12 then 1 else m + 1) 1
                      - days_from_civil y m 1)))"

definition stand_in :: "int \<Rightarrow> dayjs" where
  "stand_in start =
     \<lparr>clock = (\<lambda>k. start + int k),
      dayjs_utc = parse_iso_utc,
      dayjs_local = parse_iso_utc,
      tz_guess = ''UTC'',
      tz = zone_view,
      format_utc = (\<lambda>t pattern. format_local t 0),
      fromNow = (\<lambda>d now. case d of None \<Rightarrow> ''Invalid Date''
                   | Some t \<Rightarrow> if t \<le> now then ''a few seconds ago'' else ''in a few seconds''),
      daysInMonth = month_length,
      week = sunday_week,
      isoWeek = iso_week\<rparr>"

section \<open>Notions of the specification\<close>

text \<open>
  The instant a conversion works on, with the library call that yields it: the current
  instant when no instant string is given or the given one is empty or only white space,
  the UTC reading of the string otherwise (\<open>None\<close> when it does not parse).
\<close>

definition resolve_instant :: "dayjs \<Rightarrow> string option \<Rightarrow> lib_call \<times> int option" where
  "resolve_instant lib time =
     (case time of
        None \<Rightarrow> (ClockRead 0, Some (clock lib 0))
      | Some s \<Rightarrow>
          if trim s = [] then (ClockRead 0, Some (clock lib 0))
          else (ParseUtc s, dayjs_utc lib s))"

text \<open>
  The tool catalogue of the specification: the six names, and for each the fields its
  argument mapping must have and may have, all of them strings.  An argument mapping is
  malformed for a tool when a required field is missing or a declared field has a value
  of another primitive type.  A field bound to \<open>undefined\<close> counts as missing.
\<close>

definition tool_names :: "string list" where
  "tool_names =
     [''current_time'', ''relative_time'', ''days_in_month'', ''get_timestamp'',
      ''convert_time'', ''get_week_year'']"

definition required_fields :: "string \<Rightarrow> string list" where
  "required_fields name =
     (if name = ''current_time'' then [''format'']
      else if name = ''relative_time'' then [''time'']
      else if name = ''convert_time'' then [''sourceTimezone'', ''targetTimezone'']
      else [])"

definition optional_fields :: "string \<Rightarrow> string list" where
  "optional_fields name =
     (if name = ''current_time'' then [''timezone'']
      else if name = ''days_in_month'' then [''date'']
      else if name = ''get_timestamp'' then [''time'']
      else if name = ''convert_time'' then [''time'']
      else if name = ''get_week_year'' then [''date'']
      else [])"

definition field_of :: "jsval \<Rightarrow> string \<Rightarrow> jsval option" where
  "field_of args k = (case args of JObj kvs \<Rightarrow> map_of kvs k | _ \<Rightarrow> None)"

definition missing :: "jsval \<Rightarrow> string \<Rightarrow> bool" where
  "missing args k = (field_of args k = None \<or> field_of args k = Some JUndefined)"

definition wrong_type :: "jsval \<Rightarrow> string \<Rightarrow> bool" where
  "wrong_type args k =
     (case field_of args k of
        None \<Rightarrow> False
      | Some v \<Rightarrow> v \<noteq> JUndefined \<and> typeof v \<noteq> ''string'')"

definition malformed :: "string \<Rightarrow> jsval \<Rightarrow> bool" where
  "malformed name args =
     ((\<exists>k \<in> set (required_fields name). missing args k)
      \<or> (\<exists>k \<in> set (required_fields name @ optional_fields name). wrong_type args k))"

text \<open>The error a failed conversion throws: it names both zones and the underlying cause.\<close>

definition failed_conversion :: "string \<Rightarrow> string \<Rightarrow> string \<Rightarrow> js_exn" where
  "failed_conversion src tgt cause =
     ErrorObj (''Failed to convert time from '' @ src @ '' to '' @ tgt @ '': '' @ cause)"

section \<open>Decimal rendering\<close>

lemma digit_value_digit_char: "0 \<le> d \<Longrightarrow> d < 10 \<Longrightarrow> digit_value (digit_char d) = d"
  by (simp add: digit_value_def digit_char_def)

lemma digits_value_snoc: "digits_value (s @ [c]) = 10 * digits_value s + digit_value c"
  by (simp add: digits_value_def)

lemma digits_value_decimal: "0 \<le> n \<Longrightarrow> digits_value (decimal n) = n"
proof (induction n rule: decimal.induct)
  case (1 n)
  show ?case
  proof (cases "n < 10")
    case True
    with 1 show ?thesis
      by (simp add: decimal.simps [of n] digits_value_def digit_value_digit_char)
  next
    case False
    with 1 show ?thesis
      by (simp add: decimal.simps [of n] digits_value_snoc digit_value_digit_char)
  qed
qed

section \<open>Computations\<close>

lemma seq_returns: "seq (returns x) f = f x"
  by (simp add: seq_def returns_def split: prod.splits)

lemma seq_call: "seq (call c x) f = (c # fst (f x), snd (f x))"
  by (simp add: seq_def call_def split: prod.splits)

lemma seq_call_throwing_Inl: "seq (call_throwing c (Inl e)) f = ([c], Inl e)"
  by (simp add: seq_def call_throwing_def)

lemma seq_call_throwing_Inr: "seq (call_throwing c (Inr x)) f = (c # fst (f x), snd (f x))"
  by (simp add: seq_def call_throwing_def split: prod.splits)

lemma try_catch_Inr: "try_catch (t, Inr x) h = (t, Inr x)"
  by (simp add: try_catch_def)

lemma try_catch_Inl: "try_catch (t, Inl e) h = (t @ fst (h e), snd (h e))"
  by (simp add: try_catch_def split: prod.splits)

lemma trim_Nil: "trim [] = []"
  by (simp add: trim_def)

section \<open>The paths through convertTime\<close>

lemma instant_step:
  "(case (if hasValidTime time then time else None) of
      Some s \<Rightarrow> call (ParseUtc s) (dayjs_utc lib s)
    | None \<Rightarrow> call (ClockRead 0) (Some (clock lib 0)))
   = call (fst (resolve_instant lib time)) (snd (resolve_instant lib time))"
  by (auto simp: hasValidTime_def resolve_instant_def trim_Nil split: option.splits)

lemma convertTime_body_blank:
  "trim src = [] \<or> trim tgt = [] \<Longrightarrow>
   convertTime_body lib src tgt time =
     ([], Inl (ErrorObj ''Source and target timezones are required and cannot be empty''))"
  by (auto simp: convertTime_body_def throws_def)

lemma convertTime_body_invalid:
  "trim src \<noteq> [] \<Longrightarrow> trim tgt \<noteq> [] \<Longrightarrow> resolve_instant lib time = (c, None) \<Longrightarrow>
   convertTime_body lib src tgt time =
     ([c], Inl (ErrorObj (''Invalid time value provided: '' @ template time)))"
  by (simp add: convertTime_body_def instant_step seq_call throws_def)

lemma convertTime_body_source_throws:
  "trim src \<noteq> [] \<Longrightarrow> trim tgt \<noteq> [] \<Longrightarrow> resolve_instant lib time = (c, Some t) \<Longrightarrow>
   tz lib t src = Inl e \<Longrightarrow>
   convertTime_body lib src tgt time = ([c, TzConvert t src], Inl e)"
  by (simp add: convertTime_body_def instant_step seq_call seq_call_throwing_Inl)

lemma convertTime_body_target_throws:
  "trim src \<noteq> [] \<Longrightarrow> trim tgt \<noteq> [] \<Longrightarrow> resolve_instant lib time = (c, Some t) \<Longrightarrow>
   tz lib t src = Inr zs \<Longrightarrow> tz lib t tgt = Inl e \<Longrightarrow>
   convertTime_body lib src tgt time = ([c, TzConvert t src, TzConvert t tgt], Inl e)"
  by (simp add: convertTime_body_def instant_step seq_call seq_call_throwing_Inl
      seq_call_throwing_Inr)

lemma convertTime_body_not_valid:
  "trim src \<noteq> [] \<Longrightarrow> trim tgt \<noteq> [] \<Longrightarrow> resolve_instant lib time = (c, Some t) \<Longrightarrow>
   tz lib t src = Inr zs \<Longrightarrow> tz lib t tgt = Inr zt \<Longrightarrow> \<not> isValid zs \<or> \<not> isValid zt \<Longrightarrow>
   convertTime_body lib src tgt time =
     ([c, TzConvert t src, TzConvert t tgt], Inl (ErrorObj ''Invalid timezone conversion''))"
  by (auto simp: convertTime_body_def instant_step seq_call seq_call_throwing_Inr throws_def)

lemma convertTime_body_returns:
  "trim src \<noteq> [] \<Longrightarrow> trim tgt \<noteq> [] \<Longrightarrow> resolve_instant lib time = (c, Some t) \<Longrightarrow>
   tz lib t src = Inr zs \<Longrightarrow> tz lib t tgt = Inr zt \<Longrightarrow> isValid zs \<Longrightarrow> isValid zt \<Longrightarrow>
   convertTime_body lib src tgt time =
     ([c, TzConvert t src, TzConvert t tgt, UtcOffset, UtcOffset,
       Format formatString, Format formatString],
      Inr \<lparr>sourceTime = formatted zs formatString, targetTime = formatted zt formatString,
           timeDiff = formatTimeDifference (utcOffset zt - utcOffset zs)\<rparr>)"
  by (simp add: convertTime_body_def instant_step seq_call seq_call_throwing_Inr returns_def
      Let_def)

lemma convertTime_of_body_Inr:
  "convertTime_body lib src tgt time = (t, Inr r) \<Longrightarrow> convertTime lib src tgt time = (t, Inr r)"
  by (simp add: convertTime_def try_catch_Inr)

lemma convertTime_of_body_Inl:
  "convertTime_body lib src tgt time = (t, Inl e) \<Longrightarrow>
   convertTime lib src tgt time = (t, Inl (failed_conversion src tgt (message_or_unknown e)))"
  by (simp add: convertTime_def try_catch_Inl throws_def failed_conversion_def)

lemma convertTime_success:
  assumes "convertTime lib src tgt time = (tr, Inr r)"
  shows "\<exists>c t zs zt. trim src \<noteq> [] \<and> trim tgt \<noteq> [] \<and> resolve_instant lib time = (c, Some t)
           \<and> tz lib t src = Inr zs \<and> tz lib t tgt = Inr zt \<and> isValid zs \<and> isValid zt
           \<and> tr = [c, TzConvert t src, TzConvert t tgt, UtcOffset, UtcOffset,
                   Format formatString, Format formatString]
           \<and> r = \<lparr>sourceTime = formatted zs formatString,
                   targetTime = formatted zt formatString,
                   timeDiff = formatTimeDifference (utcOffset zt - utcOffset zs)\<rparr>"
proof (cases "trim src = [] \<or> trim tgt = []")
  case True
  from convertTime_of_body_Inl [OF convertTime_body_blank [OF True]] assms
  show ?thesis by simp
next
  case False
  then have ns: "trim src \<noteq> []" and nt: "trim tgt \<noteq> []" by simp_all
  obtain c m where res: "resolve_instant lib time = (c, m)"
    by (cases "resolve_instant lib time")
  show ?thesis
  proof (cases m)
    case None
    from convertTime_of_body_Inl [OF convertTime_body_invalid [OF ns nt res [unfolded None]]] assms
    show ?thesis by simp
  next
    case (Some t)
    note res' = res [unfolded Some]
    show ?thesis
    proof (cases "tz lib t src")
      case (Inl e)
      from convertTime_of_body_Inl [OF convertTime_body_source_throws [OF ns nt res' Inl]] assms
      show ?thesis by simp
    next
      case zs: (Inr zs)
      show ?thesis
      proof (cases "tz lib t tgt")
        case (Inl e)
        from convertTime_of_body_Inl [OF convertTime_body_target_throws [OF ns nt res' zs Inl]] assms
        show ?thesis by simp
      next
        case zt: (Inr zt)
        show ?thesis
        proof (cases "isValid zs \<and> isValid zt")
          case False
          then have "\<not> isValid zs \<or> \<not> isValid zt" by simp
          from convertTime_of_body_Inl [OF convertTime_body_not_valid [OF ns nt res' zs zt this]] assms
          show ?thesis by simp
        next
          case True
          then have vs: "isValid zs" and vt: "isValid zt" by simp_all
          from convertTime_of_body_Inr [OF convertTime_body_returns [OF ns nt res' zs zt vs vt]] assms
          have "tr = [c, TzConvert t src, TzConvert t tgt, UtcOffset, UtcOffset,
                   Format formatString, Format formatString]"
            and "r = \<lparr>sourceTime = formatted zs formatString,
                   targetTime = formatted zt formatString,
                   timeDiff = formatTimeDifference (utcOffset zt - utcOffset zs)\<rparr>"
            by simp_all
          with ns nt res' zs zt vs vt show ?thesis by blast
        qed
      qed
    qed
  qed
qed

lemma hd_formatTimeDifference:
  "hd (formatTimeDifference m) = (if m < 0 then CHR ''-'' else CHR ''+'')"
  by (simp add: formatTimeDifference_def Let_def)

lemma hasValidTime_nonblank: "trim s \<noteq> [] \<Longrightarrow> hasValidTime (Some s) = True"
  by (auto simp: hasValidTime_def trim_Nil)

lemma convertTime_body_blank_instant:
  "trim s = [] \<Longrightarrow> convertTime_body lib src tgt (Some s) = convertTime_body lib src tgt None"
  by (simp add: convertTime_body_def instant_step resolve_instant_def seq_call)

section \<open>The request handler around a tool\<close>

lemma convert_time_name:
  "tool_switch lib ''convert_time'' args =
     (if \<not> checkConvertTimeArgs args then invalid_arguments ''convert_time''
      else
        let sourceTimezone = as_string (get_prop args ''sourceTimezone'');
            targetTimezone = as_string (get_prop args ''targetTimezone'');
            time = as_opt_string (get_prop args ''time'')
        in seq (convertTime lib sourceTimezone targetTimezone time) (\<lambda>result.
           let timeContext =
                 (if hasValidTime time then ''At '' @ template time @ '', the''
                  else ''The current'')
           in returns (text_result True
                (timeContext @ '' time in '' @ sourceTimezone @ '' is '' @ sourceTime result
                  @ '', and in '' @ targetTimezone @ '' is '' @ targetTime result
                  @ ''. Time difference: '' @ timeDiff result @ ''.''))))"
  by (simp add: tool_switch_def)

lemma seq_Inl: "seq (t, Inl e) f = (t, Inl e)"
  by (simp add: seq_def)

lemma handler_of_switch_Inl:
  "tool_switch lib name args = (t, Inl e) \<Longrightarrow>
   handler lib name args = (t, Inr (text_result False (message_or_string e)))"
  by (simp add: handler_def try_catch_Inl returns_def)

lemma handler_of_switch_Inr:
  "tool_switch lib name args = (t, Inr r) \<Longrightarrow> handler lib name args = (t, Inr r)"
  by (simp add: handler_def try_catch_Inr)

lemma switch_get_timestamp:
  "checkTimestampArgs args \<Longrightarrow>
   tool_switch lib ''get_timestamp'' args =
     seq (member args ''time'') (\<lambda>v.
       let time = as_opt_string v
       in seq (getTimestamp lib time) (\<lambda>result.
          returns (text_result True
            (if truthy time
             then ''The timestamp of '' @ template time @ '' (parsed as UTC) is ''
                    @ show_number result @ '' ms.''
             else ''The current timestamp is '' @ show_number result @ '' ms.''))))"
  by (simp add: tool_switch_def)

lemma seq_success:
  assumes "snd (seq m f) = Inr r"
  shows "\<exists>x. snd m = Inr x \<and> snd (f x) = Inr r"
  using assms by (cases m) (auto simp: seq_def split: sum.splits prod.splits)

lemma returns_success: "snd (returns x) = Inr r \<Longrightarrow> r = x"
  by (simp add: returns_def)

lemma tool_switch_success:
  assumes "snd (tool_switch lib name args) = Inr r"
  shows "\<exists>msg. r = text_result True msg"
  using assms
  by (auto simp: tool_switch_def Let_def invalid_arguments_def throws_def
      split: if_splits dest!: seq_success returns_success)

section \<open>Validation against the tool catalogue\<close>

lemma malformed_current_time: "malformed ''current_time'' args \<Longrightarrow> \<not> checkCurrentTimeArgs args"
  by (cases args)
    (auto simp: malformed_def missing_def wrong_type_def field_of_def required_fields_def
      optional_fields_def checkCurrentTimeArgs_def split: option.splits)

lemma malformed_relative_time: "malformed ''relative_time'' args \<Longrightarrow> \<not> checkRelativeTimeArgs args"
  by (cases args)
    (auto simp: malformed_def missing_def wrong_type_def field_of_def required_fields_def
      optional_fields_def checkRelativeTimeArgs_def split: option.splits)

lemma malformed_days_in_month: "malformed ''days_in_month'' args \<Longrightarrow> \<not> checkDaysInMonthArgs args"
  by (cases args)
    (auto simp: malformed_def missing_def wrong_type_def field_of_def required_fields_def
      optional_fields_def checkDaysInMonthArgs_def split: option.splits)

lemma malformed_get_timestamp: "malformed ''get_timestamp'' args \<Longrightarrow> \<not> checkTimestampArgs args"
  by (cases args)
    (auto simp: malformed_def missing_def wrong_type_def field_of_def required_fields_def
      optional_fields_def checkTimestampArgs_def split: option.splits)

lemma malformed_convert_time: "malformed ''convert_time'' args \<Longrightarrow> \<not> checkConvertTimeArgs args"
  by (cases args)
    (auto simp: malformed_def missing_def wrong_type_def field_of_def required_fields_def
      optional_fields_def checkConvertTimeArgs_def split: option.splits)

lemma malformed_get_week_year: "malformed ''get_week_year'' args \<Longrightarrow> \<not> checkWeekOfYearArgs args"
  by (cases args)
    (auto simp: malformed_def missing_def wrong_type_def field_of_def required_fields_def
      optional_fields_def checkWeekOfYearArgs_def split: option.splits)

lemma switch_invalid:
  "\<not> checkCurrentTimeArgs args \<Longrightarrow>
     tool_switch lib ''current_time'' args = invalid_arguments ''current_time''"
  "\<not> checkRelativeTimeArgs args \<Longrightarrow>
     tool_switch lib ''relative_time'' args = invalid_arguments ''relative_time''"
  "\<not> checkDaysInMonthArgs args \<Longrightarrow>
     tool_switch lib ''days_in_month'' args = invalid_arguments ''days_in_month''"
  "\<not> checkTimestampArgs args \<Longrightarrow>
     tool_switch lib ''get_timestamp'' args = invalid_arguments ''get_timestamp''"
  "\<not> checkConvertTimeArgs args \<Longrightarrow>
     tool_switch lib ''convert_time'' args = invalid_arguments ''convert_time''"
  "\<not> checkWeekOfYearArgs args \<Longrightarrow>
     tool_switch lib ''get_week_year'' args = invalid_arguments ''get_week_year''"
  by (simp_all add: tool_switch_def)

lemma switch_unknown:
  "name \<notin> set tool_names \<Longrightarrow> tool_switch lib name args = throws (ErrorObj (''Unknown tool: '' @ name))"
  by (simp add: tool_switch_def tool_names_def)

lemma malformed_switch:
  assumes "name \<in> set tool_names" "malformed name args"
  shows "tool_switch lib name args = invalid_arguments name"
  using assms
  by (auto simp: tool_names_def switch_invalid malformed_current_time malformed_relative_time
      malformed_days_in_month malformed_get_timestamp malformed_convert_time
      malformed_get_week_year)

section \<open>Evaluation over the stand-in library\<close>

lemma stand_in_fields:
  "clock (stand_in c) k = c + int k"
  "dayjs_utc (stand_in c) = parse_iso_utc"
  "dayjs_local (stand_in c) = parse_iso_utc"
  "tz (stand_in c) = zone_view"
  "daysInMonth (stand_in c) = month_length"
  by (simp_all add: stand_in_def)

lemma zone_view_known:
  "map_of zone_table zone = Some off \<Longrightarrow>
   zone_view t zone =
     Inr \<lparr>isValid = True, utcOffset = off, formatted = (\<lambda>pattern. format_local t off)\<rparr>"
  by (simp add: zone_view_def)

lemma zone_offsets:
  "map_of zone_table ''UTC'' = Some 0"
  "map_of zone_table ''Asia/Kolkata'' = Some 330"
  "map_of zone_table ''Asia/Kathmandu'' = Some 345"
  "map_of zone_table ''Asia/Dhaka'' = Some 360"
  "map_of zone_table ''Asia/Colombo'' = Some 330"
  "map_of zone_table ''Asia/Tokyo'' = Some 540"
  by (simp_all add: zone_table_def)

lemma nonblank_zones:
  "trim ''UTC'' \<noteq> []"
  "trim ''Asia/Kolkata'' \<noteq> []"
  "trim ''Asia/Kathmandu'' \<noteq> []"
  "trim ''Asia/Dhaka'' \<noteq> []"
  "trim ''Asia/Colombo'' \<noteq> []"
  "trim ''Asia/Tokyo'' \<noteq> []"
  by (simp_all add: trim_def is_space_def)

lemma blank_strings:
  "trim '' '' = []"
  "trim ''   '' = []"
  by (simp_all add: trim_def is_space_def)

lemma nonblank_instants:
  "trim ''2025-10-17T12:00:00'' \<noteq> []"
  "trim ''2025-10-17T00:00:00'' \<noteq> []"
  "trim ''yesterday'' \<noteq> []"
  by (simp_all add: trim_def is_space_def)

lemma parse_examples:
  "parse_iso_utc ''2025-10-17T12:00:00'' = Some 1760702400000"
  "parse_iso_utc ''2025-10-17T00:00:00'' = Some 1760659200000"
  "parse_iso_utc ''yesterday'' = None"
  "parse_iso_utc [] = None"
  by code_simp+

lemma format_examples:
  "format_local 1760702400000 330 = ''2025-10-17 17:30:00''"
  "format_local 1760702400000 345 = ''2025-10-17 17:45:00''"
  "format_local 1760659200000 330 = ''2025-10-17 05:30:00''"
  "format_local 1760659200000 345 = ''2025-10-17 05:45:00''"
  "format_local 1760659200000 360 = ''2025-10-17 06:00:00''"
  "format_local 1760659200000 540 = ''2025-10-17 09:00:00''"
  "format_local 0 0 = ''1970-01-01 00:00:00''"
  "format_local 0 540 = ''1970-01-01 09:00:00''"
  "format_local 86400000 0 = ''1970-01-02 00:00:00''"
  "format_local 86400000 540 = ''1970-01-02 09:00:00''"
  by code_simp+

lemma difference_examples:
  "formatTimeDifference 15 = ''+0 hours 15 minutes''"
  "formatTimeDifference 180 = ''+3 hours''"
  "formatTimeDifference 540 = ''+9 hours''"
  by code_simp+

lemma stand_in_returns:
  assumes "trim src \<noteq> []" "trim tgt \<noteq> []"
    and "resolve_instant (stand_in c) time = (lc, Some t)"
    and "map_of zone_table src = Some so" "map_of zone_table tgt = Some to"
  shows "convertTime (stand_in c) src tgt time =
     ([lc, TzConvert t src, TzConvert t tgt, UtcOffset, UtcOffset,
       Format formatString, Format formatString],
      Inr \<lparr>sourceTime = format_local t so, targetTime = format_local t to,
           timeDiff = formatTimeDifference (to - so)\<rparr>)"
  using convertTime_of_body_Inr [OF convertTime_body_returns [OF assms(1-3),
      of "\<lparr>isValid = True, utcOffset = so, formatted = (\<lambda>pattern. format_local t so)\<rparr>"
         "\<lparr>isValid = True, utcOffset = to, formatted = (\<lambda>pattern. format_local t to)\<rparr>"]]
  by (simp add: stand_in_fields zone_view_known [OF assms(4)] zone_view_known [OF assms(5)])

lemma resolve_examples:
  "resolve_instant (stand_in c) (Some ''2025-10-17T12:00:00'')
     = (ParseUtc ''2025-10-17T12:00:00'', Some 1760702400000)"
  "resolve_instant (stand_in c) (Some []) = (ClockRead 0, Some c)"
  "resolve_instant (stand_in c) (Some '' '') = (ClockRead 0, Some c)"
  "resolve_instant (stand_in c) (Some ''   '') = (ClockRead 0, Some c)"
  "resolve_instant (stand_in c) None = (ClockRead 0, Some c)"
  by (simp_all add: resolve_instant_def stand_in_fields parse_examples nonblank_instants
      blank_strings trim_Nil)

lemma check_examples:
  "checkConvertTimeArgs (JObj [(''sourceTimezone'', JStr src), (''targetTimezone'', JStr tgt)])"
  "checkConvertTimeArgs
     (JObj [(''sourceTimezone'', JStr src), (''targetTimezone'', JStr tgt), (''time'', JStr s)])"
  by (simp_all add: checkConvertTimeArgs_def)

section \<open>Rendering of the offset difference\<close>

text \<open>
  C2: for every integer minute difference \<open>m\<close> the rendered string is the sign, then
  \<open>floor(|m|/60)\<close> hours, then the remainder \<open>|m| mod 60\<close> in minutes only when it is
  not zero, each unit singular exactly when its count is 1; 330 gives
  \<open>+5 hours 30 minutes\<close>, -300 gives \<open>-5 hours\<close>, -301 gives \<open>-5 hours 1 minute\<close>.
\<close>

theorem formatTimeDifference_renders:
  "formatTimeDifference m = render_difference m
   \<and> formatTimeDifference 330 = ''+5 hours 30 minutes''
   \<and> formatTimeDifference (- 300) = ''-5 hours''
   \<and> formatTimeDifference (- 301) = ''-5 hours 1 minute''"
proof -
  have general: "formatTimeDifference m = render_difference m"
    by (simp add: formatTimeDifference_def render_difference_def counted_def Let_def)
  have e1: "formatTimeDifference 330 = ''+5 hours 30 minutes''"
    by code_simp
  have e2: "formatTimeDifference (- 300) = ''-5 hours''"
    by code_simp
  have e3: "formatTimeDifference (- 301) = ''-5 hours 1 minute''"
    by code_simp
  from general e1 e2 e3 show ?thesis by simp
qed

text \<open>
  C10: the sign is \<open>+\<close> for every non-negative difference and \<open>-\<close> only for a negative
  one; a difference of 0 (two zones with the same offset at the shared instant) renders
  as \<open>+0 hours\<close>, and the hour count may be 0 under either sign.
\<close>

theorem sign_of_rendered_difference:
  "hd (formatTimeDifference m) = (if m < 0 then CHR ''-'' else CHR ''+'')
   \<and> formatTimeDifference 0 = ''+0 hours''
   \<and> formatTimeDifference 45 = ''+0 hours 45 minutes''
   \<and> formatTimeDifference (- 45) = ''-0 hours 45 minutes''
   \<and> (trim src \<noteq> [] \<and> trim tgt \<noteq> [] \<and> resolve_instant lib time = (c, Some t)
        \<and> tz lib t src = Inr zs \<and> tz lib t tgt = Inr zt \<and> isValid zs \<and> isValid zt
        \<and> utcOffset zs = utcOffset zt \<longrightarrow>
      snd (convertTime lib src tgt time) =
        Inr \<lparr>sourceTime = formatted zs formatString, targetTime = formatted zt formatString,
             timeDiff = ''+0 hours''\<rparr>)"
proof -
  have z: "formatTimeDifference 0 = ''+0 hours''" by code_simp
  have p: "formatTimeDifference 45 = ''+0 hours 45 minutes''" by code_simp
  have n: "formatTimeDifference (- 45) = ''-0 hours 45 minutes''" by code_simp
  have "snd (convertTime lib src tgt time) =
        Inr \<lparr>sourceTime = formatted zs formatString, targetTime = formatted zt formatString,
             timeDiff = ''+0 hours''\<rparr>"
    if "trim src \<noteq> []" "trim tgt \<noteq> []" "resolve_instant lib time = (c, Some t)"
       "tz lib t src = Inr zs" "tz lib t tgt = Inr zt" "isValid zs" "isValid zt"
       "utcOffset zs = utcOffset zt"
    using convertTime_of_body_Inr [OF convertTime_body_returns [OF that(1-7)]] that(8)
    by (simp add: z)
  with z p n hd_formatTimeDifference [of m] show ?thesis by blast
qed

theorem sign_of_rendered_difference_witness:
  "hd (formatTimeDifference (- 45)) = CHR ''-''
   \<and> snd (convertTime (stand_in 1760659200000) ''Asia/Kolkata'' ''Asia/Colombo''
            (Some ''2025-10-17T12:00:00''))
       = Inr \<lparr>sourceTime = ''2025-10-17 17:30:00'', targetTime = ''2025-10-17 17:30:00'',
              timeDiff = ''+0 hours''\<rparr>"
  using sign_of_rendered_difference [of "- 45" "''Asia/Kolkata''" "''Asia/Colombo''"
      "stand_in 1760659200000" "Some ''2025-10-17T12:00:00''" "ParseUtc ''2025-10-17T12:00:00''"
      1760702400000
      "\<lparr>isValid = True, utcOffset = 330, formatted = (\<lambda>pattern. format_local 1760702400000 330)\<rparr>"
      "\<lparr>isValid = True, utcOffset = 330, formatted = (\<lambda>pattern. format_local 1760702400000 330)\<rparr>"]
  by (simp add: nonblank_zones resolve_examples stand_in_fields zone_view_known zone_offsets
      format_examples)

section \<open>Conversion between zones\<close>

text \<open>
  C1, as amended: a conversion that returns has resolved one instant, by one library call
  (the UTC reading of the instant string when that string is given and is not empty or
  only white space, the current instant otherwise); both zone views are taken of that
  instant; the two local times are formatted from those views; and the reported
  difference renders the target offset minus the source offset, which is positive
  exactly when the target offset exceeds the source offset.
\<close>

theorem convertTime_single_instant:
  assumes "convertTime lib src tgt time = (tr, Inr r)"
  shows "\<exists>c t zs zt.
           resolve_instant lib time = (c, Some t)
           \<and> tz lib t src = Inr zs \<and> tz lib t tgt = Inr zt
           \<and> tr = [c, TzConvert t src, TzConvert t tgt, UtcOffset, UtcOffset,
                   Format formatString, Format formatString]
           \<and> sourceTime r = formatted zs formatString
           \<and> targetTime r = formatted zt formatString
           \<and> timeDiff r = formatTimeDifference (utcOffset zt - utcOffset zs)
           \<and> (0 < utcOffset zt - utcOffset zs) = (utcOffset zs < utcOffset zt)
           \<and> (hd (timeDiff r) = CHR ''-'') = (utcOffset zt < utcOffset zs)"
proof -
  from convertTime_success [OF assms] obtain c t zs zt where
    h: "resolve_instant lib time = (c, Some t)" "tz lib t src = Inr zs" "tz lib t tgt = Inr zt"
       "tr = [c, TzConvert t src, TzConvert t tgt, UtcOffset, UtcOffset,
              Format formatString, Format formatString]"
       "r = \<lparr>sourceTime = formatted zs formatString,
              targetTime = formatted zt formatString,
              timeDiff = formatTimeDifference (utcOffset zt - utcOffset zs)\<rparr>"
    by blast
  have sgn: "(hd (timeDiff r) = CHR ''-'') = (utcOffset zt < utcOffset zs)"
    by (simp add: h(5) hd_formatTimeDifference)
  have "(0 < utcOffset zt - utcOffset zs) = (utcOffset zs < utcOffset zt)" by arith
  with h sgn show ?thesis by auto
qed

theorem convertTime_single_instant_witness:
  "convertTime (stand_in 1760659200000) ''Asia/Kolkata'' ''Asia/Kathmandu''
     (Some ''2025-10-17T12:00:00'')
   = ([ParseUtc ''2025-10-17T12:00:00'', TzConvert 1760702400000 ''Asia/Kolkata'',
       TzConvert 1760702400000 ''Asia/Kathmandu'', UtcOffset, UtcOffset,
       Format formatString, Format formatString],
      Inr \<lparr>sourceTime = ''2025-10-17 17:30:00'', targetTime = ''2025-10-17 17:45:00'',
           timeDiff = ''+0 hours 15 minutes''\<rparr>)
   \<and> (\<exists>c t zs zt.
         resolve_instant (stand_in 1760659200000) (Some ''2025-10-17T12:00:00'') = (c, Some t)
         \<and> tz (stand_in 1760659200000) t ''Asia/Kolkata'' = Inr zs
         \<and> tz (stand_in 1760659200000) t ''Asia/Kathmandu'' = Inr zt
         \<and> c = ParseUtc ''2025-10-17T12:00:00'' \<and> t = 1760702400000
         \<and> formatted zs formatString = ''2025-10-17 17:30:00''
         \<and> formatted zt formatString = ''2025-10-17 17:45:00''
         \<and> formatTimeDifference (utcOffset zt - utcOffset zs) = ''+0 hours 15 minutes''
         \<and> utcOffset zs < utcOffset zt)"
proof -
  have h: "convertTime (stand_in 1760659200000) ''Asia/Kolkata'' ''Asia/Kathmandu''
             (Some ''2025-10-17T12:00:00'')
           = ([ParseUtc ''2025-10-17T12:00:00'', TzConvert 1760702400000 ''Asia/Kolkata'',
               TzConvert 1760702400000 ''Asia/Kathmandu'', UtcOffset, UtcOffset,
               Format formatString, Format formatString],
              Inr \<lparr>sourceTime = ''2025-10-17 17:30:00'', targetTime = ''2025-10-17 17:45:00'',
                   timeDiff = ''+0 hours 15 minutes''\<rparr>)"
    using stand_in_returns [OF nonblank_zones(2) nonblank_zones(3) resolve_examples(1)
        zone_offsets(2) zone_offsets(3)]
    by (simp add: format_examples difference_examples)
  from convertTime_single_instant [OF h] obtain c t zs zt where
    k: "resolve_instant (stand_in 1760659200000) (Some ''2025-10-17T12:00:00'') = (c, Some t)"
       "tz (stand_in 1760659200000) t ''Asia/Kolkata'' = Inr zs"
       "tz (stand_in 1760659200000) t ''Asia/Kathmandu'' = Inr zt"
       "c = ParseUtc ''2025-10-17T12:00:00''" "t = 1760702400000"
       "formatted zs formatString = ''2025-10-17 17:30:00''"
       "formatted zt formatString = ''2025-10-17 17:45:00''"
       "formatTimeDifference (utcOffset zt - utcOffset zs) = ''+0 hours 15 minutes''"
       "(hd ''+0 hours 15 minutes'' = CHR ''-'') = (utcOffset zt < utcOffset zs)"
       "(0 < utcOffset zt - utcOffset zs) = (utcOffset zs < utcOffset zt)"
    by auto
  from k(2,3,5) have "utcOffset zs = 330" "utcOffset zt = 345"
    by (auto simp: stand_in_fields zone_view_known zone_offsets)
  with h k show ?thesis by auto
qed

text \<open>
  C1 as stated fails for a given but empty instant string: it is not parsed as UTC (its
  UTC reading would be invalid); the clock is read and the conversion succeeds.
\<close>

theorem blank_instant_reads_clock:
  "convertTime (stand_in 1760659200000) ''Asia/Kolkata'' ''Asia/Kathmandu'' (Some [])
     = ([ClockRead 0, TzConvert 1760659200000 ''Asia/Kolkata'',
         TzConvert 1760659200000 ''Asia/Kathmandu'', UtcOffset, UtcOffset,
         Format formatString, Format formatString],
        Inr \<lparr>sourceTime = ''2025-10-17 05:30:00'', targetTime = ''2025-10-17 05:45:00'',
             timeDiff = ''+0 hours 15 minutes''\<rparr>)
   \<and> dayjs_utc (stand_in 1760659200000) [] = None"
  using stand_in_returns [OF nonblank_zones(2) nonblank_zones(3) resolve_examples(2)
        zone_offsets(2) zone_offsets(3)]
  by (simp add: format_examples difference_examples stand_in_fields parse_examples)

text \<open>
  C3, as amended: an instant string that is empty or only white space is treated as
  absent, so the call behaves as the call without an instant; an instant string that is
  not blank and does not parse makes the conversion throw an error that names both zones
  and a cause, after at most the parse itself: no zone view, offset or formatting is
  computed.  With both zones non-blank the cause is the invalid time value.
\<close>

theorem blank_or_unparsable_instant:
  "(trim s = [] \<longrightarrow> convertTime lib src tgt (Some s) = convertTime lib src tgt None)
   \<and> (trim s \<noteq> [] \<and> dayjs_utc lib s = None \<longrightarrow>
        (\<exists>tr cause. convertTime lib src tgt (Some s) = (tr, Inl (failed_conversion src tgt cause))
           \<and> (tr = [] \<or> tr = [ParseUtc s]))
        \<and> (trim src \<noteq> [] \<and> trim tgt \<noteq> [] \<longrightarrow>
             convertTime lib src tgt (Some s) =
               ([ParseUtc s],
                Inl (failed_conversion src tgt (''Invalid time value provided: '' @ s)))))"
proof (intro conjI impI)
  assume "trim s = []"
  then show "convertTime lib src tgt (Some s) = convertTime lib src tgt None"
    by (simp add: convertTime_def convertTime_body_blank_instant)
next
  assume a: "trim s \<noteq> [] \<and> dayjs_utc lib s = None"
  then have res: "resolve_instant lib (Some s) = (ParseUtc s, None)"
    by (simp add: resolve_instant_def)
  show "\<exists>tr cause. convertTime lib src tgt (Some s) = (tr, Inl (failed_conversion src tgt cause))
           \<and> (tr = [] \<or> tr = [ParseUtc s])"
  proof (cases "trim src = [] \<or> trim tgt = []")
    case True
    from convertTime_of_body_Inl [OF convertTime_body_blank [OF True]]
    show ?thesis by blast
  next
    case False
    then have "trim src \<noteq> []" "trim tgt \<noteq> []" by simp_all
    from convertTime_of_body_Inl [OF convertTime_body_invalid [OF this res]]
    show ?thesis by blast
  qed
next
  assume a: "trim s \<noteq> [] \<and> dayjs_utc lib s = None" and z: "trim src \<noteq> [] \<and> trim tgt \<noteq> []"
  from a have res: "resolve_instant lib (Some s) = (ParseUtc s, None)"
    by (simp add: resolve_instant_def)
  from z have "trim src \<noteq> []" "trim tgt \<noteq> []" by simp_all
  from convertTime_of_body_Inl [OF convertTime_body_invalid [OF this res]]
  show "convertTime lib src tgt (Some s) =
          ([ParseUtc s], Inl (failed_conversion src tgt (''Invalid time value provided: '' @ s)))"
    by (simp add: template_def)
qed


theorem blank_or_unparsable_instant_witness:
  "convertTime (stand_in 1760659200000) ''Asia/Dhaka'' ''Asia/Tokyo'' (Some '' '')
     = convertTime (stand_in 1760659200000) ''Asia/Dhaka'' ''Asia/Tokyo'' None
   \<and> convertTime (stand_in 1760659200000) ''Asia/Dhaka'' ''Asia/Tokyo'' (Some ''yesterday'')
       = ([ParseUtc ''yesterday''],
          Inl (failed_conversion ''Asia/Dhaka'' ''Asia/Tokyo''
                 ''Invalid time value provided: yesterday''))"
  using blank_or_unparsable_instant [of "'' ''" "stand_in 1760659200000" "''Asia/Dhaka''"
      "''Asia/Tokyo''"]
    blank_or_unparsable_instant [of "''yesterday''" "stand_in 1760659200000" "''Asia/Dhaka''"
      "''Asia/Tokyo''"]
  by (simp add: blank_strings nonblank_instants nonblank_zones stand_in_fields parse_examples)

text \<open>
  C3 as stated fails for an instant string of white space only: no error is raised, the
  conversion is that of the current instant.
\<close>

theorem whitespace_instant_converts:
  "convertTime (stand_in 1760659200000) ''Asia/Dhaka'' ''Asia/Tokyo'' (Some ''   '')
     = ([ClockRead 0, TzConvert 1760659200000 ''Asia/Dhaka'',
         TzConvert 1760659200000 ''Asia/Tokyo'', UtcOffset, UtcOffset,
         Format formatString, Format formatString],
        Inr \<lparr>sourceTime = ''2025-10-17 06:00:00'', targetTime = ''2025-10-17 09:00:00'',
             timeDiff = ''+3 hours''\<rparr>)"
  using stand_in_returns [OF nonblank_zones(4) nonblank_zones(6) resolve_examples(4)
        zone_offsets(4) zone_offsets(6)]
  by (simp add: format_examples difference_examples)

text \<open>
  C4: when the source or the target zone is empty or only white space, the conversion
  throws an error whose message names both zone arguments, and the handler turns it
  into a failure envelope with that message, whatever the instant argument.
\<close>

theorem blank_zone_fails:
  assumes "trim src = [] \<or> trim tgt = []"
  shows "convertTime lib src tgt time =
           ([], Inl (failed_conversion src tgt
                  ''Source and target timezones are required and cannot be empty''))
         \<and> (checkConvertTimeArgs args \<and> get_prop args ''sourceTimezone'' = JStr src
              \<and> get_prop args ''targetTimezone'' = JStr tgt \<longrightarrow>
            handler lib ''convert_time'' args =
              ([], Inr (text_result False
                     (''Failed to convert time from '' @ src @ '' to '' @ tgt
                       @ '': Source and target timezones are required and cannot be empty''))))"
proof -
  have c: "convertTime lib src tgt time =
           ([], Inl (failed_conversion src tgt
                  ''Source and target timezones are required and cannot be empty''))" for time
    using convertTime_of_body_Inl [OF convertTime_body_blank [OF assms]] by simp
  have "handler lib ''convert_time'' args =
              ([], Inr (text_result False
                     (''Failed to convert time from '' @ src @ '' to '' @ tgt
                       @ '': Source and target timezones are required and cannot be empty'')))"
    if v: "checkConvertTimeArgs args" and s: "get_prop args ''sourceTimezone'' = JStr src"
      and t: "get_prop args ''targetTimezone'' = JStr tgt"
  proof -
    have "tool_switch lib ''convert_time'' args =
            ([], Inl (failed_conversion src tgt
                  ''Source and target timezones are required and cannot be empty''))"
      by (simp add: convert_time_name v s t c seq_Inl Let_def)
    from handler_of_switch_Inl [OF this] show ?thesis
      by (simp add: failed_conversion_def)
  qed
  with c show ?thesis by blast
qed


theorem blank_zone_fails_witness:
  "convertTime (stand_in 1760659200000) [] ''Asia/Tokyo'' None =
     ([], Inl (failed_conversion [] ''Asia/Tokyo''
            ''Source and target timezones are required and cannot be empty''))
   \<and> handler (stand_in 1760659200000) ''convert_time''
        (JObj [(''sourceTimezone'', JStr []), (''targetTimezone'', JStr ''Asia/Tokyo'')]) =
       ([], Inr (text_result False
          ''Failed to convert time from  to Asia/Tokyo: Source and target timezones are required and cannot be empty''))"
  using blank_zone_fails [of "[]" "''Asia/Tokyo''" "stand_in 1760659200000" None
      "JObj [(''sourceTimezone'', JStr []), (''targetTimezone'', JStr ''Asia/Tokyo'')]"]
  by (simp add: trim_Nil check_examples)

text \<open>
  C9, as amended: for an instant string that is not empty or only white space, the
  conversion and the handler's answer do not depend on the system clock: two calls with
  the same arguments give the same result over the same library.
\<close>

theorem explicit_instant_deterministic:
  assumes "trim s \<noteq> []"
  shows "convertTime (lib\<lparr>clock := c1\<rparr>) src tgt (Some s)
           = convertTime (lib\<lparr>clock := c2\<rparr>) src tgt (Some s)
         \<and> (checkConvertTimeArgs args \<and> get_prop args ''time'' = JStr s \<longrightarrow>
              handler (lib\<lparr>clock := c1\<rparr>) ''convert_time'' args
                = handler (lib\<lparr>clock := c2\<rparr>) ''convert_time'' args)"
proof -
  have b: "convertTime_body (lib\<lparr>clock := c\<rparr>) src tgt (Some s) = convertTime_body lib src tgt (Some s)"
    for c src tgt
    unfolding convertTime_body_def hasValidTime_nonblank [OF assms] by simp
  have c: "convertTime (lib\<lparr>clock := c\<rparr>) src tgt (Some s) = convertTime lib src tgt (Some s)"
    for c src tgt
    by (simp add: convertTime_def b)
  have "handler (lib\<lparr>clock := c\<rparr>) ''convert_time'' args = handler lib ''convert_time'' args"
    if "get_prop args ''time'' = JStr s" for c
    by (simp add: handler_def convert_time_name that c)
  with c show ?thesis by simp
qed

theorem explicit_instant_deterministic_witness:
  "convertTime ((stand_in 0)\<lparr>clock := \<lambda>k. 0\<rparr>) ''UTC'' ''Asia/Tokyo'' (Some ''2025-10-17T12:00:00'')
     = convertTime ((stand_in 0)\<lparr>clock := \<lambda>k. 86400000\<rparr>) ''UTC'' ''Asia/Tokyo''
         (Some ''2025-10-17T12:00:00'')
   \<and> handler ((stand_in 0)\<lparr>clock := \<lambda>k. 0\<rparr>) ''convert_time''
         (JObj [(''sourceTimezone'', JStr ''UTC''), (''targetTimezone'', JStr ''Asia/Tokyo''),
                (''time'', JStr ''2025-10-17T12:00:00'')])
       = handler ((stand_in 0)\<lparr>clock := \<lambda>k. 86400000\<rparr>) ''convert_time''
           (JObj [(''sourceTimezone'', JStr ''UTC''), (''targetTimezone'', JStr ''Asia/Tokyo''),
                  (''time'', JStr ''2025-10-17T12:00:00'')])"
  using explicit_instant_deterministic [OF nonblank_instants(1),
      where lib = "stand_in 0" and ?c1.0 = "\<lambda>k. 0" and ?c2.0 = "\<lambda>k. 86400000"
        and src = "''UTC''" and tgt = "''Asia/Tokyo''"
        and args = "JObj [(''sourceTimezone'', JStr ''UTC''),
             (''targetTimezone'', JStr ''Asia/Tokyo''),
             (''time'', JStr ''2025-10-17T12:00:00'')]"]
  by (simp add: check_examples)

text \<open>
  C9 as stated fails for an explicitly supplied instant string of white space only: the
  same arguments give different local times when the clock differs.
\<close>

theorem blank_instant_depends_on_clock:
  "convertTime (stand_in 0) ''UTC'' ''Asia/Tokyo'' (Some '' '')
     = ([ClockRead 0, TzConvert 0 ''UTC'', TzConvert 0 ''Asia/Tokyo'', UtcOffset, UtcOffset,
         Format formatString, Format formatString],
        Inr \<lparr>sourceTime = ''1970-01-01 00:00:00'', targetTime = ''1970-01-01 09:00:00'',
             timeDiff = ''+9 hours''\<rparr>)
   \<and> convertTime (stand_in 86400000) ''UTC'' ''Asia/Tokyo'' (Some '' '')
     = ([ClockRead 0, TzConvert 86400000 ''UTC'', TzConvert 86400000 ''Asia/Tokyo'',
         UtcOffset, UtcOffset, Format formatString, Format formatString],
        Inr \<lparr>sourceTime = ''1970-01-02 00:00:00'', targetTime = ''1970-01-02 09:00:00'',
             timeDiff = ''+9 hours''\<rparr>)"
  using stand_in_returns [OF nonblank_zones(1) nonblank_zones(6) resolve_examples(3)
        zone_offsets(1) zone_offsets(6), of 0]
    stand_in_returns [OF nonblank_zones(1) nonblank_zones(6) resolve_examples(3)
        zone_offsets(1) zone_offsets(6), of 86400000]
  by (simp add: format_examples difference_examples)

section \<open>The dispatcher\<close>

text \<open>
  C6: for each of the six tools and every argument mapping that is malformed for it, the
  handler answers with the failure envelope \<open>Invalid arguments for tool: [name]\<close>; for
  every other name it answers with the failure envelope \<open>Unknown tool: name\<close>; in both
  cases no library call has been made.
\<close>

theorem malformed_or_unknown_rejected:
  "(name \<in> set tool_names \<and> malformed name args \<longrightarrow>
      handler lib name args =
        ([], Inr (text_result False (''Invalid arguments for tool: ['' @ name @ '']''))))
   \<and> (name \<notin> set tool_names \<longrightarrow>
      handler lib name args = ([], Inr (text_result False (''Unknown tool: '' @ name))))"
proof (intro conjI impI)
  assume "name \<in> set tool_names \<and> malformed name args"
  then have "tool_switch lib name args
      = ([], Inl (ErrorObj (''Invalid arguments for tool: ['' @ name @ '']'')))"
    by (simp add: malformed_switch invalid_arguments_def throws_def)
  from handler_of_switch_Inl [OF this]
  show "handler lib name args =
        ([], Inr (text_result False (''Invalid arguments for tool: ['' @ name @ '']'')))"
    by simp
next
  assume "name \<notin> set tool_names"
  then have "tool_switch lib name args = ([], Inl (ErrorObj (''Unknown tool: '' @ name)))"
    by (simp add: switch_unknown throws_def)
  from handler_of_switch_Inl [OF this]
  show "handler lib name args = ([], Inr (text_result False (''Unknown tool: '' @ name)))"
    by simp
qed

theorem malformed_or_unknown_rejected_witness:
  "handler (stand_in 0) ''relative_time'' (JObj []) =
     ([], Inr (text_result False ''Invalid arguments for tool: [relative_time]''))
   \<and> handler (stand_in 0) ''get_week_year'' (JObj [(''date'', JNum 7)]) =
     ([], Inr (text_result False ''Invalid arguments for tool: [get_week_year]''))
   \<and> handler (stand_in 0) ''stopwatch'' (JObj []) =
     ([], Inr (text_result False ''Unknown tool: stopwatch''))"
  using malformed_or_unknown_rejected [of "''relative_time''" "JObj []" "stand_in 0"]
    malformed_or_unknown_rejected [of "''get_week_year''" "JObj [(''date'', JNum 7)]" "stand_in 0"]
    malformed_or_unknown_rejected [of "''stopwatch''" "JObj []" "stand_in 0"]
  by (simp add: tool_names_def malformed_def missing_def wrong_type_def field_of_def
      required_fields_def optional_fields_def)

text \<open>
  C7: every invocation, whatever the name and the arguments, ends in exactly one
  envelope and never in an exception: either the \<open>switch\<close> returned a success envelope
  with its text, which the handler returns, or it threw, and the handler returns the
  failure envelope carrying the message of what was thrown.
\<close>

theorem handler_one_result:
  "(\<exists>tr msg. tool_switch lib name args = (tr, Inr (text_result True msg))
        \<and> handler lib name args = (tr, Inr (text_result True msg)))
   \<or> (\<exists>tr e. tool_switch lib name args = (tr, Inl e)
        \<and> handler lib name args = (tr, Inr (text_result False (message_or_string e))))"
proof -
  obtain tr res where sw: "tool_switch lib name args = (tr, res)"
    by (cases "tool_switch lib name args")
  show ?thesis
  proof (cases res)
    case (Inl e)
    with sw handler_of_switch_Inl [of lib name args tr e] show ?thesis by blast
  next
    case (Inr r)
    with sw tool_switch_success [of lib name args r] obtain msg where "r = text_result True msg"
      by auto
    with sw Inr handler_of_switch_Inr [of lib name args tr r] show ?thesis by blast
  qed
qed

text \<open>
  C5 fails on the code: \<open>days_in_month\<close> with an argument mapping that omits \<open>date\<close>
  is rejected by \<open>checkDaysInMonthArgs\<close>, although \<open>getDaysInMonth\<close> takes the current
  month when no date is given and the validators of the other optional dates and times
  accept the empty mapping.
\<close>

theorem days_in_month_requires_date:
  "handler lib ''days_in_month'' (JObj []) =
     ([], Inr (text_result False ''Invalid arguments for tool: [days_in_month]''))
   \<and> getDaysInMonth lib None =
     ([ClockRead 0, DaysInMonth], Inr (daysInMonth lib (Some (clock lib 0))))
   \<and> checkWeekOfYearArgs (JObj [])
   \<and> checkTimestampArgs (JObj [])"
proof -
  have "\<not> checkDaysInMonthArgs (JObj [])"
    by (simp add: checkDaysInMonthArgs_def)
  then have "tool_switch lib ''days_in_month'' (JObj [])
      = ([], Inl (ErrorObj ''Invalid arguments for tool: [days_in_month]''))"
    by (simp add: switch_invalid invalid_arguments_def throws_def)
  from handler_of_switch_Inl [OF this]
  have h: "handler lib ''days_in_month'' (JObj []) =
     ([], Inr (text_result False ''Invalid arguments for tool: [days_in_month]''))"
    by simp
  have g: "getDaysInMonth lib None =
     ([ClockRead 0, DaysInMonth], Inr (daysInMonth lib (Some (clock lib 0))))"
    by (simp add: getDaysInMonth_def truthy_def seq_def call_def)
  have "checkWeekOfYearArgs (JObj [])" "checkTimestampArgs (JObj [])"
    by (simp_all add: checkWeekOfYearArgs_def checkTimestampArgs_def)
  with h g show ?thesis by simp
qed

theorem days_in_month_requires_date_witness:
  "handler (stand_in 1760659200000) ''days_in_month'' (JObj []) =
     ([], Inr (text_result False ''Invalid arguments for tool: [days_in_month]''))
   \<and> getDaysInMonth (stand_in 1760659200000) None = ([ClockRead 0, DaysInMonth], Inr (Some 31))"
proof -
  have "month_length (Some 1760659200000) = Some 31"
    by code_simp
  with days_in_month_requires_date [of "stand_in 1760659200000"] show ?thesis
    by (simp add: stand_in_fields)
qed

text \<open>
  C8 fails on the code when the request carries no argument object at all:
  \<open>checkTimestampArgs\<close> accepts \<open>undefined\<close>, and the handler then reads \<open>args.time\<close>
  of it, which throws.  \<open>getTimestamp\<close> itself reads the clock when no time is given, as
  the handler does for an argument object without \<open>time\<close>, and the UTC reading of
  \<open>2025-10-17T00:00:00\<close> is 1760659200000.
\<close>

theorem get_timestamp_without_arguments:
  "checkTimestampArgs JUndefined
   \<and> handler lib ''get_timestamp'' JUndefined =
       ([], Inr (text_result False
          (''Cannot read properties of undefined (reading '' @ [CHR 0x27] @ ''time''
             @ [CHR 0x27] @ '')'')))
   \<and> getTimestamp lib None = ([ClockRead 0], Inr (Some (clock lib 0)))
   \<and> handler lib ''get_timestamp'' (JObj []) =
       ([ClockRead 0],
        Inr (text_result True (''The current timestamp is '' @ show_int (clock lib 0) @ '' ms.'')))
   \<and> getTimestamp (stand_in c) (Some ''2025-10-17T00:00:00'') =
       ([ParseUtc ''2025-10-17T00:00:00''], Inr (Some 1760659200000))"
proof -
  have v: "checkTimestampArgs JUndefined" "checkTimestampArgs (JObj [])"
    by (simp_all add: checkTimestampArgs_def)
  have "tool_switch lib ''get_timestamp'' JUndefined =
       ([], Inl (ErrorObj (''Cannot read properties of undefined (reading '' @ [CHR 0x27]
           @ ''time'' @ [CHR 0x27] @ '')'')))"
    by (simp add: switch_get_timestamp v member_def seq_def throws_def)
  from handler_of_switch_Inl [OF this]
  have h1: "handler lib ''get_timestamp'' JUndefined =
       ([], Inr (text_result False
          (''Cannot read properties of undefined (reading '' @ [CHR 0x27] @ ''time''
             @ [CHR 0x27] @ '')'')))"
    by simp
  have g: "getTimestamp lib None = ([ClockRead 0], Inr (Some (clock lib 0)))"
    by (simp add: getTimestamp_def truthy_def call_def)
  have "tool_switch lib ''get_timestamp'' (JObj []) =
       ([ClockRead 0],
        Inr (text_result True (''The current timestamp is '' @ show_int (clock lib 0) @ '' ms.'')))"
    by (simp add: switch_get_timestamp v member_def seq_returns g seq_def returns_def
        truthy_def show_number_def)
  from handler_of_switch_Inr [OF this]
  have h2: "handler lib ''get_timestamp'' (JObj []) =
       ([ClockRead 0],
        Inr (text_result True (''The current timestamp is '' @ show_int (clock lib 0) @ '' ms.'')))" .
  have p: "getTimestamp (stand_in c) (Some ''2025-10-17T00:00:00'') =
       ([ParseUtc ''2025-10-17T00:00:00''], Inr (Some 1760659200000))"
    by (simp add: getTimestamp_def truthy_def call_def stand_in_fields parse_examples)
  from v(1) h1 g h2 p show ?thesis by simp
qed

theorem get_timestamp_without_arguments_witness:
  "handler (stand_in 1760659200000) ''get_timestamp'' JUndefined =
     ([], Inr (text_result False
        (''Cannot read properties of undefined (reading '' @ [CHR 0x27] @ ''time''
           @ [CHR 0x27] @ '')'')))
   \<and> handler (stand_in 1760659200000) ''get_timestamp'' (JObj []) =
     ([ClockRead 0], Inr (text_result True ''The current timestamp is 1760659200000 ms.''))"
proof -
  have "show_int 1760659200000 = ''1760659200000''"
    by code_simp
  with get_timestamp_without_arguments [of "stand_in 1760659200000"] show ?thesis
    by (simp add: stand_in_fields)
qed

end
